theory Spec2Isabelle
  imports Complex_Main
begin

section \<open>Values of the program\<close>

text \<open>
  The server (src/server.js) handles JSON-like JavaScript values: the rows the data store
  returns, the response envelope of the translator, the body of a request. An object is
  the list of its own enumerable properties in the order \<open>Object.entries\<close> gives them.
  A \<open>Date\<close> object is given by the two observations the program makes of it: its time
  value in milliseconds (\<open>getTime()\<close>) and its string form (\<open>toString()\<close>, which depends
  on the time zone of the process); \<open>JInvalidDate\<close> is the Date whose time value is NaN.
  A Number is NaN, an infinity, or finite; a finite Number is given by its value and by
  the text \<open>Number.prototype.toString\<close> gives for it. That text is computed where it is
  the plain decimal form of an integer (an integer value of magnitude below \<open>10^21\<close>); for
  a fractional value and for a magnitude from \<open>10^21\<close>, where the text is the shortest
  decimal that reads back as the same double (\<open>13.5\<close>, \<open>1e+21\<close>), it is the text the
  value carries. Strings are sequences of characters on which the program's own string
  functions act on the ASCII letters, digits and the underscore only.
\<close>

datatype number =
    Finite rat string
  | NaN
  | PosInfinity
  | NegInfinity

datatype jsval =
    JUndefined
  | JNull
  | JBool bool
  | JNum number
  | JStr string
  | JDate int string
  | JInvalidDate
  | JArr "jsval list"
  | JObj "(string \<times> jsval) list"

text \<open>
  What the program can throw: \<open>new Error(message)\<close>, the TypeError of the runtime (a
  property read on \<open>null\<close> or \<open>undefined\<close>, a call of something that is not a function),
  and the rejections of the two external calls.
\<close>

datatype error =
    Error string
  | TypeError
  | HttpError string
  | DbError string

subsection \<open>Numbers and strings of the runtime\<close>

definition digit_char :: "nat \<Rightarrow> char" where
  "digit_char n = ''0123456789'' ! n"

fun show_nat :: "nat \<Rightarrow> string" where
  "show_nat n = (if n < 10 then [digit_char n] else show_nat (n div 10) @ [digit_char (n mod 10)])"

declare show_nat.simps [simp del]

definition show_int :: "int \<Rightarrow> string" where
  "show_int i = (if i < 0 then CHR ''-'' # show_nat (nat (- i)) else show_nat (nat i))"

text \<open>
  \<open>Number.prototype.toString\<close>, which is also the string form of a Number in a template
  literal.
\<close>

definition is_whole :: "rat \<Rightarrow> bool" where
  "is_whole v = (of_int \<lfloor>v\<rfloor> = v)"

definition Number_toString :: "number \<Rightarrow> string" where
  "Number_toString n =
     (case n of
        Finite v s \<Rightarrow> (if is_whole v \<and> \<bar>v\<bar> < 10 ^ 21 then show_int \<lfloor>v\<rfloor> else s)
      | NaN \<Rightarrow> ''NaN''
      | PosInfinity \<Rightarrow> ''Infinity''
      | NegInfinity \<Rightarrow> ''-Infinity'')"

text \<open>\<open>Array.prototype.join\<close> on strings already converted.\<close>

fun join :: "string \<Rightarrow> string list \<Rightarrow> string" where
  "join sep [] = []"
| "join sep [s] = s"
| "join sep (s # t # ts) = s @ sep @ join sep (t # ts)"

text \<open>Running a list of fallible steps: the first error ends it, as an exception would.\<close>

fun sequence :: "(error + 'a) list \<Rightarrow> error + 'a list" where
  "sequence [] = Inr []"
| "sequence (r # rs) =
     (case r of Inl e \<Rightarrow> Inl e
      | Inr x \<Rightarrow> (case sequence rs of Inl e \<Rightarrow> Inl e | Inr xs \<Rightarrow> Inr (x # xs)))"

text \<open>
  The abstract operation \<open>ToString\<close>, which a template literal \<open>`${value}`\<close> and the
  operator \<open>+\<close> with a string apply. An array is joined with commas, \<open>null\<close> and
  \<open>undefined\<close> elements giving the empty string; an object of data has the string form of
  \<open>Object.prototype.toString\<close>, unless it has an own property \<open>toString\<close>, which is then
  not a function: the conversion throws a TypeError.
\<close>

fun ToString :: "jsval \<Rightarrow> error + string" where
  "ToString JUndefined = Inr ''undefined''"
| "ToString JNull = Inr ''null''"
| "ToString (JBool b) = Inr (if b then ''true'' else ''false'')"
| "ToString (JNum n) = Inr (Number_toString n)"
| "ToString (JStr s) = Inr s"
| "ToString (JDate t s) = Inr s"
| "ToString JInvalidDate = Inr ''Invalid Date''"
| "ToString (JArr xs) =
     (case sequence (map (\<lambda>x. if x = JNull \<or> x = JUndefined then Inr [] else ToString x) xs) of
        Inl e \<Rightarrow> Inl e
      | Inr strs \<Rightarrow> Inr (join '','' strs))"
| "ToString (JObj kvs) =
     (if ''toString'' \<in> set (map fst kvs) then Inl TypeError else Inr ''[object Object]'')"

text \<open>The method call \<open>value.toString()\<close>: reading the property of \<open>null\<close> or \<open>undefined\<close> throws.\<close>

definition toString :: "jsval \<Rightarrow> error + string" where
  "toString v = (if v = JNull \<or> v = JUndefined then Inl TypeError else ToString v)"

subsection \<open>Characters\<close>

definition lower_letters :: string where
  "lower_letters = ''abcdefghijklmnopqrstuvwxyz''"

definition upper_letters :: string where
  "upper_letters = ''ABCDEFGHIJKLMNOPQRSTUVWXYZ''"

definition decimal_digits :: string where
  "decimal_digits = ''0123456789''"

text \<open>The class \<open>\w\<close> of a regular expression without the unicode flag: \<open>[A-Za-z0-9_]\<close>.\<close>

definition is_word_char :: "char \<Rightarrow> bool" where
  "is_word_char c = (c \<in> set (lower_letters @ upper_letters @ decimal_digits @ ''_''))"

definition toUpperCase_char :: "char \<Rightarrow> char" where
  "toUpperCase_char c = (case map_of (zip lower_letters upper_letters) c of Some u \<Rightarrow> u | None \<Rightarrow> c)"

definition toLowerCase_char :: "char \<Rightarrow> char" where
  "toLowerCase_char c = (case map_of (zip upper_letters lower_letters) c of Some l \<Rightarrow> l | None \<Rightarrow> c)"

definition toLowerCase :: "string \<Rightarrow> string" where
  "toLowerCase s = map toLowerCase_char s"

fun startsWith :: "string \<Rightarrow> string \<Rightarrow> bool" where
  "startsWith s [] = True"
| "startsWith [] (c # cs) = False"
| "startsWith (d # ds) (c # cs) = (d = c \<and> startsWith ds cs)"

text \<open>\<open>s.includes(sub)\<close>: \<open>sub\<close> occurs in \<open>s\<close> at some position.\<close>

fun str_includes :: "string \<Rightarrow> string \<Rightarrow> bool" where
  "str_includes [] sub = (sub = [])"
| "str_includes (c # cs) sub = (startsWith (c # cs) sub \<or> str_includes cs sub)"

section \<open>The chat-block renderer: \<open>convertJsonToSlackBlocks\<close>\<close>

subsection \<open>The label of a field\<close>

text \<open>\<open>key.replace(/_/g, ' ')\<close>: every underscore becomes a space.\<close>

definition replace_underscores :: "string \<Rightarrow> string" where
  "replace_underscores key = map (\<lambda>c. if c = CHR ''_'' then CHR '' '' else c) key"

text \<open>
  \<open>s.replace(/\b\w/g, (char) => char.toUpperCase())\<close>: the expression matches a word
  character at a word boundary, that is a word character at the start of the string or
  after a character that is not a word character; each match is replaced by its upper
  case. The flag says whether the character before the current position is a word
  character (false at the start).
\<close>

fun replace_word_starts :: "bool \<Rightarrow> string \<Rightarrow> string" where
  "replace_word_starts prev [] = []"
| "replace_word_starts prev (c # cs) =
     (if is_word_char c \<and> \<not> prev then toUpperCase_char c else c)
       # replace_word_starts (is_word_char c) cs"

definition formattedKey :: "string \<Rightarrow> string" where
  "formattedKey key = replace_word_starts False (replace_underscores key)"

text \<open>
  The test \<open>key.toLowerCase().includes('date') || key.toLowerCase().includes('time')\<close>.
\<close>

definition is_date_key :: "string \<Rightarrow> bool" where
  "is_date_key key = (str_includes (toLowerCase key) ''date'' \<or> str_includes (toLowerCase key) ''time'')"

subsection \<open>\<open>new Date(value)\<close>\<close>

text \<open>
  \<open>Date.parse\<close> has one format every runtime must read, the Date Time String Format of
  ECMAScript. Its complete form in UTC, \<open>YYYY-MM-DDTHH:mm:ssZ\<close> with an optional
  \<open>.sss\<close>, is read here, for legal values of the elements. What the runtime does with any
  other string is its own choice: it is the parameter \<open>fallback\<close> of the functions below,
  which gives the time value or \<open>None\<close> for NaN.
\<close>

fun read_digits :: "nat \<Rightarrow> string \<Rightarrow> (nat \<times> string) option" where
  "read_digits 0 s = Some (0, s)"
| "read_digits (Suc n) s =
     (case read_digits n s of
        None \<Rightarrow> None
      | Some (v, []) \<Rightarrow> None
      | Some (v, c # cs) \<Rightarrow>
          (case map_of (zip decimal_digits [0 ..< 10]) c of
             None \<Rightarrow> None
           | Some d \<Rightarrow> Some (10 * v + d, cs)))"

fun expect :: "char \<Rightarrow> string \<Rightarrow> string option" where
  "expect c [] = None"
| "expect c (d # ds) = (if c = d then Some ds else None)"

definition is_leap_year :: "nat \<Rightarrow> bool" where
  "is_leap_year y = ((y mod 4 = 0 \<and> y mod 100 \<noteq> 0) \<or> y mod 400 = 0)"

definition days_in_month :: "nat \<Rightarrow> nat \<Rightarrow> nat" where
  "days_in_month y m =
     (if m = 2 then (if is_leap_year y then 29 else 28)
      else if m \<in> {4, 6, 9, 11} then 30 else 31)"

text \<open>The day number of the first of January of year \<open>y\<close>, counted from 1970 (DayFromYear).\<close>

definition day_from_year :: "int \<Rightarrow> int" where
  "day_from_year y =
     365 * (y - 1970) + (y - 1969) div 4 - (y - 1901) div 100 + (y - 1601) div 400"

definition make_day :: "nat \<Rightarrow> nat \<Rightarrow> nat \<Rightarrow> int" where
  "make_day y m d =
     day_from_year (int y) + int (sum_list (map (days_in_month y) [1 ..< m])) + int d - 1"

definition make_time_value :: "nat \<Rightarrow> nat \<Rightarrow> nat \<Rightarrow> nat \<Rightarrow> nat \<Rightarrow> nat \<Rightarrow> nat \<Rightarrow> int option" where
  "make_time_value y mo d h mi s ms =
     (if 1 \<le> mo \<and> mo \<le> 12 \<and> 1 \<le> d \<and> d \<le> days_in_month y mo \<and> h < 24 \<and> mi < 60 \<and> s < 60
      then Some ((((make_day y mo d * 24 + int h) * 60 + int mi) * 60 + int s) * 1000 + int ms)
      else None)"

definition read_fraction :: "string \<Rightarrow> (nat \<times> string) option" where
  "read_fraction s =
     (case expect CHR ''.'' s of None \<Rightarrow> Some (0, s) | Some s1 \<Rightarrow> read_digits 3 s1)"

text \<open>An element of \<open>n\<close> digits and the separator that follows it.\<close>

definition read_element :: "nat \<Rightarrow> char \<Rightarrow> string \<Rightarrow> (nat \<times> string) option" where
  "read_element n sep s =
     Option.bind (read_digits n s) (\<lambda>(v, r). map_option (Pair v) (expect sep r))"

definition parse_utc_date_time :: "string \<Rightarrow> int option" where
  "parse_utc_date_time s0 =
     Option.bind (read_element 4 CHR ''-'' s0) (\<lambda>(y, s1).
     Option.bind (read_element 2 CHR ''-'' s1) (\<lambda>(mo, s2).
     Option.bind (read_element 2 CHR ''T'' s2) (\<lambda>(d, s3).
     Option.bind (read_element 2 CHR '':'' s3) (\<lambda>(h, s4).
     Option.bind (read_element 2 CHR '':'' s4) (\<lambda>(mi, s5).
     Option.bind (read_digits 2 s5) (\<lambda>(sec, s6).
     Option.bind (read_fraction s6) (\<lambda>(ms, s7).
     if s7 = ''Z'' then make_time_value y mo d h mi sec ms else None)))))))"

definition Date_parse :: "(string \<Rightarrow> int option) \<Rightarrow> string \<Rightarrow> int option" where
  "Date_parse fallback s =
     (case parse_utc_date_time s of Some t \<Rightarrow> Some t | None \<Rightarrow> fallback s)"

text \<open>
  TimeClip, which the constructor applies to every time value: a value beyond 8.64e15
  milliseconds gives NaN; any other value is cut to its integer part, towards zero.
\<close>

definition TimeClip :: "rat \<Rightarrow> int option" where
  "TimeClip v =
     (if \<bar>v\<bar> \<le> 8640000000000000 then Some (if 0 \<le> v then \<lfloor>v\<rfloor> else \<lceil>v\<rceil>) else None)"

text \<open>
  \<open>new Date(value)\<close> with one argument; the result is the time value of the new Date,
  \<open>None\<close> for NaN (an Invalid Date). A Date gives its own time value. Any other value is
  made primitive first: a string is parsed, everything else is converted to a number
  (\<open>undefined\<close> to NaN, \<open>null\<close> and \<open>false\<close> to 0, \<open>true\<close> to 1). An array or object
  becomes its string form, which can throw (see \<open>ToString\<close>). The time value found is
  clipped.
\<close>

definition clipped :: "int option \<Rightarrow> int option" where
  "clipped tv = Option.bind tv (\<lambda>t. TimeClip (of_int t))"

fun new_Date :: "(string \<Rightarrow> int option) \<Rightarrow> jsval \<Rightarrow> error + int option" where
  "new_Date fallback JUndefined = Inr None"
| "new_Date fallback JNull = Inr (Some 0)"
| "new_Date fallback (JBool b) = Inr (Some (if b then 1 else 0))"
| "new_Date fallback (JNum n) = Inr (case n of Finite v s \<Rightarrow> TimeClip v | _ \<Rightarrow> None)"
| "new_Date fallback (JStr s) = Inr (clipped (Date_parse fallback s))"
| "new_Date fallback (JDate t s) = Inr (clipped (Some t))"
| "new_Date fallback JInvalidDate = Inr None"
| "new_Date fallback (JArr xs) =
     (case ToString (JArr xs) of Inl e \<Rightarrow> Inl e | Inr s \<Rightarrow> Inr (clipped (Date_parse fallback s)))"
| "new_Date fallback (JObj kvs) =
     (case ToString (JObj kvs) of Inl e \<Rightarrow> Inl e | Inr s \<Rightarrow> Inr (clipped (Date_parse fallback s)))"

subsection \<open>Blocks\<close>

text \<open>
  A field of a section is \<open>{ type: 'mrkdwn', text: ... }\<close>; a block is
  \<open>{ type: 'section', fields: [...] }\<close> or \<open>{ type: 'divider' }\<close>; the renderer returns
  \<open>{ blocks }\<close>.
\<close>

record text_object =
  field_type :: string
  field_text :: string

datatype block = Section "text_object list" | Divider

record message =
  blocks :: "block list"

subsection \<open>One field\<close>

text \<open>
  The body of the \<open>try\<close>: \<open>new Date(value)\<close>, then
  \<open>Math.floor(date.getTime() / 1000)\<close>, which is NaN for an Invalid Date, then the
  template literal, which converts the number and the value to strings.
\<close>

definition unixTimestamp :: "int option \<Rightarrow> string" where
  "unixTimestamp date = (case date of None \<Rightarrow> ''NaN'' | Some t \<Rightarrow> show_int (t div 1000))"

definition date_token :: "(string \<Rightarrow> int option) \<Rightarrow> jsval \<Rightarrow> error + string" where
  "date_token fallback v =
     (case new_Date fallback v of
        Inl e \<Rightarrow> Inl e
      | Inr date \<Rightarrow>
          (case ToString v of
             Inl e \<Rightarrow> Inl e
           | Inr raw \<Rightarrow>
               Inr (''<!date^'' @ unixTimestamp date @ ''^{date_short_pretty} at {time}|'' @ raw @ ''>'')))"

text \<open>The \<open>if\<close> on the name of the field, with its \<open>try\<close> and \<open>catch\<close>.\<close>

definition formattedValue :: "(string \<Rightarrow> int option) \<Rightarrow> string \<Rightarrow> jsval \<Rightarrow> error + string" where
  "formattedValue fallback key v =
     (if is_date_key key
      then (case date_token fallback v of Inr s \<Rightarrow> Inr s | Inl e \<Rightarrow> toString v)
      else toString v)"

definition field_of :: "string \<Rightarrow> string \<Rightarrow> text_object" where
  "field_of label fv = \<lparr>field_type = ''mrkdwn'', field_text = ''*'' @ label @ '':*'' @ [CHR 0x0A] @ fv\<rparr>"

subsection \<open>The two loops\<close>

text \<open>
  \<open>Object.entries(data)\<close>: \<open>null\<close> and \<open>undefined\<close> throw; a string or an array has
  its indices as keys; a boolean, a number or a Date has no own enumerable property.
\<close>

definition Object_entries :: "jsval \<Rightarrow> error + (string \<times> jsval) list" where
  "Object_entries data =
     (case data of
        JUndefined \<Rightarrow> Inl TypeError
      | JNull \<Rightarrow> Inl TypeError
      | JStr s \<Rightarrow> Inr (zip (map show_nat [0 ..< length s]) (map (\<lambda>c. JStr [c]) s))
      | JArr xs \<Rightarrow> Inr (zip (map show_nat [0 ..< length xs]) xs)
      | JObj kvs \<Rightarrow> Inr kvs
      | _ \<Rightarrow> Inr [])"

text \<open>
  The callback of the inner \<open>forEach\<close>, for one entry \<open>[key, value]\<close>: the field it
  pushes, or what it throws.
\<close>

definition format_entry :: "(string \<Rightarrow> int option) \<Rightarrow> string \<Rightarrow> jsval \<Rightarrow> error + text_object" where
  "format_entry fallback key v =
     (case formattedValue fallback key v of
        Inl e \<Rightarrow> Inl e
      | Inr fv \<Rightarrow> Inr (field_of (formattedKey key) fv))"

text \<open>The inner \<open>forEach\<close>, which pushes one field per entry onto \<open>section.fields\<close>.\<close>

fun forEach_entry ::
  "(string \<Rightarrow> int option) \<Rightarrow> (string \<times> jsval) list \<Rightarrow> text_object list \<Rightarrow> error + text_object list"
where
  "forEach_entry fallback [] section_fields = Inr section_fields"
| "forEach_entry fallback ((key, v) # rest) section_fields =
     (case format_entry fallback key v of
        Inl e \<Rightarrow> Inl e
      | Inr f \<Rightarrow> forEach_entry fallback rest (section_fields @ [f]))"

text \<open>
  The outer \<open>forEach\<close> over the rows, with its index and the array \<open>blocks\<close> built so
  far: a divider is pushed before the section of every row but the first.
\<close>

fun forEach_row ::
  "(string \<Rightarrow> int option) \<Rightarrow> nat \<Rightarrow> jsval list \<Rightarrow> block list \<Rightarrow> error + block list"
where
  "forEach_row fallback index [] bs = Inr bs"
| "forEach_row fallback index (data # rest) bs =
     (case Object_entries data of
        Inl e \<Rightarrow> Inl e
      | Inr entries \<Rightarrow>
          (case forEach_entry fallback entries [] of
             Inl e \<Rightarrow> Inl e
           | Inr section_fields \<Rightarrow>
               forEach_row fallback (index + 1) rest
                 ((if index > 0 then bs @ [Divider] else bs) @ [Section section_fields])))"

definition convertJsonToSlackBlocks :: "(string \<Rightarrow> int option) \<Rightarrow> jsval \<Rightarrow> error + message" where
  "convertJsonToSlackBlocks fallback jsonData =
     (case jsonData of
        JArr rows \<Rightarrow>
          (if length rows = 0 then Inl (Error ''JSON data should be a non-empty array.'')
           else (case forEach_row fallback 0 rows [] of
                   Inl e \<Rightarrow> Inl e
                 | Inr bs \<Rightarrow> Inr \<lparr>blocks = bs\<rparr>))
      | _ \<Rightarrow> Inl (Error ''JSON data should be a non-empty array.''))"

section \<open>The pipeline: \<open>queryDatabase\<close>\<close>

text \<open>The constant \<open>aiPrompt\<close>, character for character (a quote that ends a line is written \<open>CHR 0x27\<close>, the dash of the last instruction is in UTF-8).\<close>

definition aiPrompt_lines :: "string list" where
  \<open>aiPrompt_lines =
    [''                    The \'vm_simple_measures\' view contains the following fields:'',
     ''                    - \'id\': integer'',
     ''                    - \'measurement\': string (name of the measurement)'',
     ''                    - \'clinic_id\': integer'',
     ''                    - \'clinic_name\': string'',
     ''                    - \'public_patient_id\': integer'',
     ''                    - \'first_name\': string'',
     ''                    - \'last_name\': string'',
     ''                    - \'evaluation_date_time\': timestamp'',
     ''                    - \'answer_value\': numeric (the value of the measurement) is double precision do not use in rounding'',
     '''',
     ''                    The \'vw_patients\' view constains the following fields:'',
     ''                    - \'public_patient_id'' @ [CHR 0x27],
     ''                    - \'patient_id'' @ [CHR 0x27],
     ''                    - \'patient_key'' @ [CHR 0x27],
     ''                    - \'evaluation_count'' @ [CHR 0x27],
     ''                    - \'last_name'' @ [CHR 0x27],
     ''                    - \'first_name'' @ [CHR 0x27],
     ''                    - \'clinic_name'' @ [CHR 0x27],
     ''                    - \'dob'' @ [CHR 0x27],
     ''                    - \'clinic_id'' @ [CHR 0x27],
     ''                    - \'zip'' @ [CHR 0x27],
     ''                    - \'sex'' @ [CHR 0x27],
     ''                    - \'date_started'' @ [CHR 0x27],
     '''',
     ''                    Instructions for generating a SQL query based on the question at the end:'',
     ''                    - Do not use single quotes around field names, view names or table names'',
     ''                    - Based on the question, query one or both views described. Join if necessary'',
     ''                    - If asking about measurements, vm_simple_measures is appropriate.'',
     ''                    - If asking about patient info without measurements, use vw_patients'',
     ''                    - Output only the SQL query without headers, human commentary, or tick marks.'',
     ''                    - Use \'%\' wildcards with \'ILIKE\' for partial matching in the \'measurement\' field.'',
     ''                    - Include \'DISTINCT\' to ensure unique results.'',
     ''                    - All non-aggregated fields should be in the \'GROUP BY\' clause for aggregate queries.'',
     ''                    - Do not use LAG and HAVING clauses in combination'',
     ''                    - Always include an \'ORDER BY\' clause.'',
     ''                    - Convert dates and times to a short, friendly format.'',
     ''                    - Include a \'running_avg\' column if calculating an average over time.'',
     ''                    - If the query involves trends, ensure the SQL reflects this.'',
     ''                    - Provide \'evaluation_date_time\' for each measurement.'',
     ''                    - Remove script commentary and tick marks. Only return SQL'',
     ''                    - IMPORTANT: Do not include explanations, comments, or annotations'' @ [CHR 0xE2, CHR 0x80, CHR 0x94] @ ''return only the SQL query.'']\<close>

definition aiPrompt :: string where
  "aiPrompt =
     [CHR 0x0A] @ concat (map (\<lambda>line. line @ [CHR 0x0A]) aiPrompt_lines) @
     ''                    The question is: ''"

text \<open>
  Reading a property by name and by index. \<open>null\<close> and \<open>undefined\<close> have no
  properties: the read throws. The names read by the program (\<open>choices\<close>, \<open>message\<close>,
  \<open>content\<close>, \<open>question\<close>) are properties of objects of data only.
\<close>

definition get_field :: "jsval \<Rightarrow> string \<Rightarrow> error + jsval" where
  "get_field v name =
     (case v of
        JUndefined \<Rightarrow> Inl TypeError
      | JNull \<Rightarrow> Inl TypeError
      | JObj kvs \<Rightarrow> Inr (case map_of kvs name of None \<Rightarrow> JUndefined | Some x \<Rightarrow> x)
      | _ \<Rightarrow> Inr JUndefined)"

definition get_index :: "jsval \<Rightarrow> nat \<Rightarrow> error + jsval" where
  "get_index v i =
     (case v of
        JUndefined \<Rightarrow> Inl TypeError
      | JNull \<Rightarrow> Inl TypeError
      | JArr xs \<Rightarrow> Inr (if i < length xs then xs ! i else JUndefined)
      | JStr s \<Rightarrow> Inr (if i < length s then JStr [s ! i] else JUndefined)
      | JObj kvs \<Rightarrow> Inr (case map_of kvs (show_nat i) of None \<Rightarrow> JUndefined | Some x \<Rightarrow> x)
      | _ \<Rightarrow> Inr JUndefined)"

text \<open>\<open>gptResponse.data.choices[0].message.content\<close>, from the \<open>data\<close> of the response.\<close>

definition first_choice_content :: "jsval \<Rightarrow> error + jsval" where
  "first_choice_content data =
     (case get_field data ''choices'' of
        Inl e \<Rightarrow> Inl e
      | Inr choices \<Rightarrow>
          (case get_index choices 0 of
             Inl e \<Rightarrow> Inl e
           | Inr choice \<Rightarrow>
               (case get_field choice ''message'' of
                  Inl e \<Rightarrow> Inl e
                | Inr msg \<Rightarrow> get_field msg ''content'')))"

text \<open>
  The two external calls are parameters. \<open>translator content\<close> is the outcome of the
  \<open>axios.post\<close> whose only message has that content: the rejection (a response that is not
  2xx, a network error) or the \<open>data\<close> of the response. \<open>db q\<close> is the outcome of
  \<open>pool.query(q)\<close>: the rejection or the \<open>rows\<close> of the result, an array. The trace
  records the calls made, in order (the logging to the console is left out).
\<close>

record trace =
  translator_calls :: "string list"
  db_calls :: "jsval list"

definition queryDatabase ::
  "(string \<Rightarrow> error + jsval) \<Rightarrow> (jsval \<Rightarrow> error + jsval list) \<Rightarrow> jsval \<Rightarrow> (error + jsval list) \<times> trace"
where
  "queryDatabase translator db question =
     (case ToString question of
        Inl e \<Rightarrow> (Inl e, \<lparr>translator_calls = [], db_calls = []\<rparr>)
      | Inr q \<Rightarrow>
          (case translator (aiPrompt @ q) of
             Inl e \<Rightarrow> (Inl e, \<lparr>translator_calls = [aiPrompt @ q], db_calls = []\<rparr>)
           | Inr data \<Rightarrow>
               (case first_choice_content data of
                  Inl e \<Rightarrow> (Inl e, \<lparr>translator_calls = [aiPrompt @ q], db_calls = []\<rparr>)
                | Inr sqlQuery \<Rightarrow>
                    (case db sqlQuery of
                       Inl e \<Rightarrow> (Inl e, \<lparr>translator_calls = [aiPrompt @ q], db_calls = [sqlQuery]\<rparr>)
                     | Inr rows \<Rightarrow>
                         (Inr rows, \<lparr>translator_calls = [aiPrompt @ q], db_calls = [sqlQuery]\<rparr>)))))"

section \<open>The two entry points\<close>

subsection \<open>\<open>POST /ask\<close>\<close>

datatype response_body = JsonBody "jsval list" | TextBody string

record response =
  status :: nat
  body :: response_body

text \<open>
  The handler reads \<open>question\<close> from the body before its \<open>try\<close>: on a body that is
  \<open>null\<close> or \<open>undefined\<close> this throws and no response is sent (\<open>Inl\<close>). Inside the
  \<open>try\<close>, \<open>res.json(answer)\<close> answers 200; the \<open>catch\<close> answers 500.
\<close>

definition ask ::
  "(string \<Rightarrow> error + jsval) \<Rightarrow> (jsval \<Rightarrow> error + jsval list) \<Rightarrow> jsval \<Rightarrow> (error + response) \<times> trace"
where
  "ask translator db req_body =
     (case get_field req_body ''question'' of
        Inl e \<Rightarrow> (Inl e, \<lparr>translator_calls = [], db_calls = []\<rparr>)
      | Inr question \<Rightarrow>
          (case queryDatabase translator db question of
             (Inr answer, t) \<Rightarrow> (Inr \<lparr>status = 200, body = JsonBody answer\<rparr>, t)
           | (Inl e, t) \<Rightarrow> (Inr \<lparr>status = 500, body = TextBody ''Server Error''\<rparr>, t)))"

subsection \<open>The mention handler\<close>

record event =
  ev_channel :: string
  ev_user :: string
  ev_text :: string

text \<open>A call of \<open>slackClient.chat.postMessage\<close>: the channel, the blocks if any, the text.\<close>

record chat_message =
  msg_channel :: string
  msg_blocks :: "block list option"
  msg_text :: string

text \<open>
  The handler posts the blocks when the pipeline returns rows, the notice when it returns
  none; whatever is thrown, by the pipeline or by the renderer, is caught and logged, and
  nothing is posted.
\<close>

definition app_mention ::
  "(string \<Rightarrow> int option) \<Rightarrow> (string \<Rightarrow> error + jsval) \<Rightarrow> (jsval \<Rightarrow> error + jsval list) \<Rightarrow> event
     \<Rightarrow> chat_message list \<times> trace"
where
  "app_mention fallback translator db ev =
     (case queryDatabase translator db (JStr (ev_text ev)) of
        (Inl e, t) \<Rightarrow> ([], t)
      | (Inr data, t) \<Rightarrow>
          (if length data > 0
           then (case convertJsonToSlackBlocks fallback (JArr data) of
                   Inl e \<Rightarrow> ([], t)
                 | Inr slackBlockMessage \<Rightarrow>
                     ([\<lparr>msg_channel = ev_channel ev,
                        msg_blocks = Some (blocks slackBlockMessage),
                        msg_text = ''Data found, please use the slack web, desktop or mobile client.''\<rparr>], t))
           else ([\<lparr>msg_channel = ev_channel ev, msg_blocks = None, msg_text = ''No data found''\<rparr>], t)))"

section \<open>Notions of the specification\<close>

text \<open>
  A ResultRow maps field names to scalar values (integer, string, numeric, timestamp); a
  ResultSet is a sequence of ResultRows.
\<close>

definition scalar :: "jsval \<Rightarrow> bool" where
  "scalar v = (case v of JBool b \<Rightarrow> True | JNum n \<Rightarrow> True | JStr s \<Rightarrow> True | JDate t s \<Rightarrow> True | _ \<Rightarrow> False)"

definition result_row :: "jsval \<Rightarrow> bool" where
  "result_row row = (case row of JObj kvs \<Rightarrow> list_all (\<lambda>(key, v). scalar v) kvs | _ \<Rightarrow> False)"

text \<open>The input the renderer accepts: an array that is not empty.\<close>

definition non_empty_array :: "jsval \<Rightarrow> bool" where
  "non_empty_array v = (case v of JArr rows \<Rightarrow> rows \<noteq> [] | _ \<Rightarrow> False)"

fun is_section :: "block \<Rightarrow> bool" where
  "is_section (Section fs) = True"
| "is_section Divider = False"

fun is_divider :: "block \<Rightarrow> bool" where
  "is_divider (Section fs) = False"
| "is_divider Divider = True"

text \<open>
  Dividers strictly between sections: the sequence is a section, then any number of
  times a divider and a section. It starts and ends with a section.
\<close>

fun interleaved :: "block list \<Rightarrow> bool" where
  "interleaved [] = False"
| "interleaved [b] = is_section b"
| "interleaved (b # d # rest) = (is_section b \<and> is_divider d \<and> interleaved rest)"







section \<open>Collaborators and data of the examples\<close>

text \<open>A runtime whose \<open>Date.parse\<close> reads the Date Time String Format and nothing else.\<close>

definition no_fallback :: "string \<Rightarrow> int option" where
  "no_fallback s = None"

text \<open>A translator that answers with a well-formed envelope holding the given query text.\<close>

definition translator_answers :: "string \<Rightarrow> string \<Rightarrow> error + jsval" where
  "translator_answers sql content =
     Inr (JObj [(''choices'',
            JArr [JObj [(''message'', JObj [(''role'', JStr ''assistant''), (''content'', JStr sql)])]])])"

text \<open>A translator whose call is rejected, and one whose first message has no content.\<close>

definition translator_down :: "string \<Rightarrow> error + jsval" where
  "translator_down content = Inl (HttpError ''Request failed with status code 429'')"

definition translator_no_content :: "string \<Rightarrow> error + jsval" where
  "translator_no_content content =
     Inr (JObj [(''choices'', JArr [JObj [(''message'', JObj [(''role'', JStr ''assistant'')])]])])"

text \<open>A data store that returns the given rows, and one that rejects every query.\<close>

definition db_returns :: "jsval list \<Rightarrow> jsval \<Rightarrow> error + jsval list" where
  "db_returns rows q = Inr rows"

definition db_rejects :: "jsval \<Rightarrow> error + jsval list" where
  "db_rejects q = Inl (DbError ''syntax error at end of input'')"

text \<open>
  A data store that, like \<open>pool.query\<close>, throws a TypeError when the query is \<open>null\<close> or
  \<open>undefined\<close>, and returns no rows for anything else.
\<close>

definition db_needs_query :: "jsval \<Rightarrow> error + jsval list" where
  "db_needs_query q = (if q = JNull \<or> q = JUndefined then Inl TypeError else Inr [])"

definition two_rows :: "jsval list" where
  "two_rows =
     [JObj [(''measurement'', JStr ''Hemoglobin''), (''answer_value'', JNum (Finite (27 / 2) ''13.5'')),
            (''evaluation_date_time'', JStr ''2024-01-15T10:30:00Z'')],
      JObj [(''measurement'', JStr ''Hemoglobin''), (''answer_value'', JNum (Finite 12 ''12'')),
            (''evaluation_date_time'', JStr ''2024-02-15T09:00:00Z'')]]"


text \<open>A ResultSet of one row with an integer and a fractional value.\<close>

definition patients :: "jsval list" where
  "patients =
     [JObj [(''public_patient_id'', JNum (Finite 42 ''42'')),
            (''weight'', JNum (Finite (145 / 2) ''72.5''))]]"

definition mention :: event where
  "mention = \<lparr>ev_channel = ''C024BE91L'', ev_user = ''U2147483697'',
              ev_text = ''average hemoglobin for clinic 3 last month''\<rparr>"

section \<open>Evaluating the definitions\<close>

text \<open>The definitions a concrete evaluation unfolds, by group.\<close>

lemmas char_defs = is_word_char_def toUpperCase_char_def toLowerCase_char_def toLowerCase_def
  lower_letters_def upper_letters_def decimal_digits_def
lemmas key_defs = formattedKey_def replace_underscores_def is_date_key_def
lemmas date_defs = Date_parse_def parse_utc_date_time_def read_element_def read_fraction_def
  make_time_value_def make_day_def day_from_year_def days_in_month_def is_leap_year_def
  TimeClip_def clipped_def eval_nat_numeral upt_rec
lemmas show_defs = show_int_def show_nat.simps digit_char_def unixTimestamp_def
  Number_toString_def is_whole_def
lemmas entry_defs = format_entry_def formattedValue_def date_token_def toString_def field_of_def

text \<open>The string forms of an integer, of a fractional and of a large Number.\<close>

lemma floor_example: "\<lfloor>27 / 2 :: rat\<rfloor> = 13"
  by (simp add: floor_unique)

lemma Number_toString_examples:
  "Number_toString (Finite 42 ''42'') = ''42''"
  "Number_toString (Finite (- 7) ''-7'') = ''-7''"
  "Number_toString (Finite (27 / 2) ''13.5'') = ''13.5''"
  "Number_toString (Finite (10 ^ 21) ''1e+21'') = ''1e+21''"
  by (simp_all add: show_defs floor_example)

lemma TimeClip_examples:
  "TimeClip 1705314600000 = Some 1705314600000"
  "TimeClip (27 / 2) = Some 13"
  "TimeClip (10 ^ 21) = None"
  by (simp_all add: TimeClip_def floor_example)

section \<open>The shape of the renderer's input\<close>

text \<open>
  Claim C8. Whatever is not a non-empty array (a value that is not an array, or the empty
  array) makes the renderer throw: it returns no message, blank or otherwise.
\<close>

theorem render_failure_on_bad_shape:
  "\<not> non_empty_array jsonData \<Longrightarrow>
   convertJsonToSlackBlocks fallback jsonData = Inl (Error ''JSON data should be a non-empty array.'')"
  by (cases jsonData) (simp_all add: convertJsonToSlackBlocks_def non_empty_array_def)

theorem render_failure_on_bad_shape_witness:
  "\<not> non_empty_array JNull \<and>
   convertJsonToSlackBlocks no_fallback JNull = Inl (Error ''JSON data should be a non-empty array.'') \<and>
   \<not> non_empty_array (JObj [(''rows'', JArr [])]) \<and>
   convertJsonToSlackBlocks no_fallback (JObj [(''rows'', JArr [])]) =
     Inl (Error ''JSON data should be a non-empty array.'') \<and>
   \<not> non_empty_array (JArr []) \<and>
   convertJsonToSlackBlocks (\<lambda>s. Some 0) (JArr []) = Inl (Error ''JSON data should be a non-empty array.'')"
  using render_failure_on_bad_shape [of JNull no_fallback]
    render_failure_on_bad_shape [of "JObj [(''rows'', JArr [])]" no_fallback]
    render_failure_on_bad_shape [of "JArr []" "\<lambda>s. Some 0"]
  by (simp add: non_empty_array_def)

text \<open>
  Claim C1, as the specification states it: for the empty ResultSet the renderer returns
  a "no data" sentinel and not an error. The renderer throws on the empty array.
\<close>

theorem empty_result_set_is_an_error:
  "convertJsonToSlackBlocks no_fallback (JArr []) = Inl (Error ''JSON data should be a non-empty array.'')"
  by (simp add: convertJsonToSlackBlocks_def)

lemma queryDatabase_answers:
  "queryDatabase (translator_answers sql) (db_returns rows) (JStr q) =
     (Inr rows, \<lparr>translator_calls = [aiPrompt @ q], db_calls = [JStr sql]\<rparr>)"
  by (simp add: queryDatabase_def translator_answers_def db_returns_def first_choice_content_def
      get_field_def get_index_def)

text \<open>
  Claim C1, amended. For the empty ResultSet the renderer throws the error "JSON data
  should be a non-empty array."; the "no data" case is decided by the mention handler,
  which does not call the renderer when the pipeline returns no rows and posts the plain
  notice "No data found" to the channel of the event.
\<close>

theorem empty_result_set_notice:
  "convertJsonToSlackBlocks fallback (JArr []) = Inl (Error ''JSON data should be a non-empty array.'') \<and>
   (fst (queryDatabase translator db (JStr (ev_text ev))) = Inr [] \<longrightarrow>
      fst (app_mention fallback translator db ev) =
        [\<lparr>msg_channel = ev_channel ev, msg_blocks = None, msg_text = ''No data found''\<rparr>])"
  by (auto simp: convertJsonToSlackBlocks_def app_mention_def split: prod.splits sum.splits)

theorem empty_result_set_notice_witness:
  "fst (queryDatabase (translator_answers ''SELECT 1'') (db_returns []) (JStr (ev_text mention))) = Inr [] \<and>
   fst (app_mention no_fallback (translator_answers ''SELECT 1'') (db_returns []) mention) =
     [\<lparr>msg_channel = ''C024BE91L'', msg_blocks = None, msg_text = ''No data found''\<rparr>]"
  using empty_result_set_notice [of no_fallback "translator_answers ''SELECT 1''" "db_returns []" mention]
  by (simp add: queryDatabase_answers mention_def)

section \<open>The composed prompt\<close>

text \<open>
  Claim C7. For every question string \<open>q\<close>, the empty one too, the content sent to the
  translator is the constant \<open>aiPrompt\<close> followed by \<open>q\<close> and nothing else: it begins
  with the unmodified instructions and what follows them is exactly \<open>q\<close>. The
  translator is called once, with that content.
\<close>

theorem composed_prompt:
  "\<exists>content. translator_calls (snd (queryDatabase translator db (JStr q))) = [content] \<and>
     content = aiPrompt @ q \<and>
     take (length aiPrompt) content = aiPrompt \<and> drop (length aiPrompt) content = q"
  by (simp add: queryDatabase_def split: sum.splits)

section \<open>The shape of a rendered message\<close>

text \<open>Scalar values have a string form, so a ResultSet always renders.\<close>

lemma formattedValue_scalar: "scalar v \<Longrightarrow> \<exists>s. formattedValue fb key v = Inr s"
  by (cases v) (auto simp: scalar_def formattedValue_def toString_def split: sum.splits)

lemma format_entry_scalar: "scalar v \<Longrightarrow> \<exists>f. format_entry fb key v = Inr f"
  using formattedValue_scalar [of v fb key] by (auto simp: format_entry_def)

lemma forEach_entry_total:
  "list_all (\<lambda>(key, v). scalar v) entries \<Longrightarrow> \<exists>fs. forEach_entry fb entries acc = Inr fs"
proof (induction entries arbitrary: acc)
  case Nil
  show ?case by simp
next
  case (Cons entry entries)
  obtain key v where entry: "entry = (key, v)" by (cases entry)
  with Cons.prems have "scalar v" by simp
  then obtain f where "format_entry fb key v = Inr f"
    using format_entry_scalar by blast
  moreover from Cons.prems have "list_all (\<lambda>(key, v). scalar v) entries" by simp
  ultimately show ?case using Cons.IH [of "acc @ [f]"] entry by simp
qed

lemma forEach_row_total:
  "list_all result_row rows \<Longrightarrow> \<exists>bs. forEach_row fb i rows acc = Inr bs"
proof (induction rows arbitrary: i acc)
  case Nil
  show ?case by simp
next
  case (Cons row rows)
  from Cons.prems obtain kvs where row: "row = JObj kvs" and kvs: "list_all (\<lambda>(key, v). scalar v) kvs"
    by (cases row) (auto simp: result_row_def)
  from kvs obtain fs where fs: "forEach_entry fb kvs [] = Inr fs"
    using forEach_entry_total by blast
  from Cons.prems have "list_all result_row rows" by simp
  then show ?case
    using Cons.IH [of "i + 1" "(if i > 0 then acc @ [Divider] else acc) @ [Section fs]"] row fs
    by (simp add: Object_entries_def)
qed

lemma forEach_row_shape:
  "0 < i \<Longrightarrow> forEach_row fb i rows acc = Inr bs \<Longrightarrow>
   \<exists>secs. length secs = length rows \<and> bs = acc @ concat (map (\<lambda>s. [Divider, Section s]) secs)"
proof (induction rows arbitrary: i acc bs)
  case Nil
  then show ?case by simp
next
  case (Cons row rows)
  from Cons.prems obtain entries fs where
    fs: "forEach_entry fb entries [] = Inr fs" and
    rest: "forEach_row fb (i + 1) rows (acc @ [Divider] @ [Section fs]) = Inr bs"
    by (auto split: sum.splits)
  from Cons.IH [OF _ rest] obtain secs where
    "length secs = length rows" "bs = (acc @ [Divider] @ [Section fs]) @ concat (map (\<lambda>s. [Divider, Section s]) secs)"
    by auto
  then have "length (fs # secs) = length (row # rows) \<and>
             bs = acc @ concat (map (\<lambda>s. [Divider, Section s]) (fs # secs))"
    by simp
  then show ?case by blast
qed

lemma forEach_row_first:
  assumes "forEach_row fb 0 (row # rows) [] = Inr bs"
  shows "\<exists>s secs. length secs = length rows \<and> bs = Section s # concat (map (\<lambda>s. [Divider, Section s]) secs)"
proof -
  from assms obtain entries fs where
    rest: "forEach_row fb 1 rows [Section fs] = Inr bs"
    by (auto split: sum.splits)
  from forEach_row_shape [OF _ rest] show ?thesis by auto
qed

lemma interleaved_sections:
  "interleaved (Section s # concat (map (\<lambda>s. [Divider, Section s]) secs))"
  by (induction secs arbitrary: s) simp_all

lemma count_sections:
  "length (filter is_section (concat (map (\<lambda>s. [Divider, Section s]) secs))) = length secs"
  by (induction secs) simp_all

lemma count_dividers:
  "length (filter is_divider (concat (map (\<lambda>s. [Divider, Section s]) secs))) = length secs"
  by (induction secs) simp_all

lemma rendered_shape:
  assumes "convertJsonToSlackBlocks fb (JArr rows) = Inr m"
  shows "length (filter is_section (blocks m)) = length rows \<and>
         length (filter is_divider (blocks m)) = length rows - 1 \<and>
         interleaved (blocks m)"
proof -
  from assms obtain row rest where rows: "rows = row # rest"
    by (cases rows) (auto simp: convertJsonToSlackBlocks_def)
  from assms rows have "forEach_row fb 0 (row # rest) [] = Inr (blocks m)"
    by (auto simp: convertJsonToSlackBlocks_def split: sum.splits)
  from forEach_row_first [OF this] obtain s secs where
    "length secs = length rest" "blocks m = Section s # concat (map (\<lambda>s. [Divider, Section s]) secs)"
    by blast
  then show ?thesis
    using rows by (simp add: interleaved_sections count_sections count_dividers)
qed

subsection \<open>Every field of every row\<close>




section \<open>What the renderer throws\<close>

text \<open>Whatever is thrown while a row is rendered is a TypeError of the runtime.\<close>

lemma sequence_Inl: "sequence rs = Inl e \<Longrightarrow> Inl e \<in> set rs"
  by (induction rs) (auto split: sum.splits)

lemma ToString_error: "ToString v = Inl e \<Longrightarrow> e = TypeError"
proof (induction v rule: ToString.induct)
  case (8 xs)
  from "8.prems" have "sequence (map (\<lambda>x. if x = JNull \<or> x = JUndefined then Inr [] else ToString x) xs) = Inl e"
    by (simp split: sum.splits)
  from sequence_Inl [OF this] obtain x where
    "x \<in> set xs" "\<not> (x = JNull \<or> x = JUndefined)" "ToString x = Inl e"
    by (auto split: if_splits)
  then show ?case using "8.IH" by blast
qed (simp_all split: if_splits)

lemma toString_error: "toString v = Inl e \<Longrightarrow> e = TypeError"
  by (auto simp: toString_def ToString_error split: if_splits)

lemma formattedValue_error: "formattedValue fb key v = Inl e \<Longrightarrow> e = TypeError"
  by (auto simp: formattedValue_def toString_error split: if_splits sum.splits)

lemma format_entry_error: "format_entry fb key v = Inl e \<Longrightarrow> e = TypeError"
  by (auto simp: format_entry_def formattedValue_error split: sum.splits)

lemma forEach_entry_error: "forEach_entry fb entries acc = Inl e \<Longrightarrow> e = TypeError"
proof (induction entries arbitrary: acc)
  case Nil
  then show ?case by simp
next
  case (Cons entry entries)
  obtain key v where "entry = (key, v)" by (cases entry)
  with Cons show ?case
    by (auto split: sum.splits dest: format_entry_error)
qed

lemma format_entry_null:
  "\<not> is_date_key key \<Longrightarrow> v = JNull \<or> v = JUndefined \<Longrightarrow> format_entry fb key v = Inl TypeError"
  by (auto simp: format_entry_def formattedValue_def toString_def)

lemma forEach_entry_null:
  assumes "(key, v) \<in> set entries" "\<not> is_date_key key" "v = JNull \<or> v = JUndefined"
  shows "forEach_entry fb entries acc = Inl TypeError"
  using assms(1)
proof (induction entries arbitrary: acc)
  case Nil
  then show ?case by simp
next
  case (Cons entry entries)
  obtain k w where entry: "entry = (k, w)" by (cases entry)
  show ?case
  proof (cases "format_entry fb k w")
    case (Inl e)
    then show ?thesis using entry format_entry_error by auto
  next
    case (Inr f)
    with assms(2,3) have "(k, w) \<noteq> (key, v)"
      using format_entry_null [of key v fb] by auto
    with Cons.prems entry have "(key, v) \<in> set entries" by auto
    from Cons.IH [OF this] show ?thesis using entry Inr by simp
  qed
qed

lemma Object_entries_error: "Object_entries data = Inl e \<Longrightarrow> e = TypeError"
  by (cases data) (auto simp: Object_entries_def)

lemma forEach_row_error: "forEach_row fb i rows acc = Inl e \<Longrightarrow> e = TypeError"
proof (induction rows arbitrary: i acc)
  case Nil
  then show ?case by simp
next
  case (Cons row rows)
  then show ?case
    by (auto split: sum.splits dest: Object_entries_error forEach_entry_error)
qed

lemma forEach_row_null:
  assumes "JObj kvs \<in> set rows" "(key, v) \<in> set kvs" "\<not> is_date_key key" "v = JNull \<or> v = JUndefined"
  shows "forEach_row fb i rows acc = Inl TypeError"
  using assms(1)
proof (induction rows arbitrary: i acc)
  case Nil
  then show ?case by simp
next
  case (Cons row rows)
  show ?case
  proof (cases "row = JObj kvs")
    case True
    then show ?thesis
      using forEach_entry_null [OF assms(2,3,4), of fb "[]"] by (simp add: Object_entries_def)
  next
    case False
    with Cons.prems have "JObj kvs \<in> set rows" by auto
    from Cons.IH [OF this] show ?thesis
      by (auto split: sum.splits dest: Object_entries_error forEach_entry_error)
  qed
qed

text \<open>
  Claim C10, as stated: every non-empty ResultSet with a \<open>null\<close> or \<open>undefined\<close> value
  in some field makes the renderer throw. In a date field \<open>null\<close> is not converted by
  \<open>toString()\<close>: \<open>new Date(null)\<close> is the epoch and the template literal prints
  \<open>null\<close>. The row \<open>{ date_started: null }\<close> renders.
\<close>

theorem null_in_date_field_renders:
  "convertJsonToSlackBlocks no_fallback (JArr [JObj [(''date_started'', JNull)]]) =
     Inr \<lparr>blocks =
       [Section [\<lparr>field_type = ''mrkdwn'',
                  field_text = ''*Date Started:*'' @ [CHR 0x0A] @
                    ''<!date^0^{date_short_pretty} at {time}|null>''\<rparr>]]\<rparr>"
  by (simp add: convertJsonToSlackBlocks_def Object_entries_def entry_defs key_defs char_defs show_defs)

text \<open>
  Claim C10, amended. For every non-empty ResultSet with a row that has a field whose
  name contains neither "date" nor "time" (in any case) and whose value is \<open>null\<close> or
  \<open>undefined\<close>, the renderer throws a TypeError and no message is rendered.
\<close>

theorem null_in_plain_field_throws:
  assumes "JObj kvs \<in> set rows" and "(key, v) \<in> set kvs"
    and "\<not> is_date_key key" and "v = JNull \<or> v = JUndefined"
  shows "convertJsonToSlackBlocks fb (JArr rows) = Inl TypeError"
proof -
  from assms(1) have "rows \<noteq> []" by auto
  then show ?thesis
    using forEach_row_null [OF assms, of fb 0 "[]"] by (simp add: convertJsonToSlackBlocks_def)
qed

lemma last_name_example: "\<not> is_date_key ''last_name''"
  by (simp add: key_defs char_defs)

theorem null_in_plain_field_throws_witness:
  "JObj [(''first_name'', JStr ''Ada''), (''last_name'', JNull)] \<in>
     set [JObj [(''first_name'', JStr ''Ada''), (''last_name'', JNull)]] \<and>
   (''last_name'', JNull) \<in> set [(''first_name'', JStr ''Ada''), (''last_name'', JNull)] \<and>
   \<not> is_date_key ''last_name'' \<and>
   convertJsonToSlackBlocks no_fallback
     (JArr [JObj [(''first_name'', JStr ''Ada''), (''last_name'', JNull)]]) = Inl TypeError"
  using null_in_plain_field_throws
    [of "[(''first_name'', JStr ''Ada''), (''last_name'', JNull)]"
        "[JObj [(''first_name'', JStr ''Ada''), (''last_name'', JNull)]]"
        "''last_name''" JNull no_fallback]
  by (simp add: last_name_example)

text \<open>In a date field \<open>null\<close> and \<open>undefined\<close> are not converted by \<open>toString()\<close>.\<close>

lemma null_or_undefined_in_date_field:
  assumes "is_date_key key"
  shows "formattedValue fb key JNull = Inr ''<!date^0^{date_short_pretty} at {time}|null>''"
    and "formattedValue fb key JUndefined = Inr ''<!date^NaN^{date_short_pretty} at {time}|undefined>''"
  using assms by (simp_all add: formattedValue_def date_token_def show_defs)

section \<open>The number of sections and dividers\<close>

lemma answer_value_example: "\<not> is_date_key ''answer_value''"
  by (simp add: key_defs char_defs)

text \<open>
  Claim C3, as stated: every ResultSet of N rows, N at least 1, gives N sections and
  N - 1 dividers. A ResultSet of two rows whose second row has a \<open>null\<close> value (an SQL
  NULL) gives no block at all: the renderer throws.
\<close>

theorem null_value_yields_no_sections:
  "convertJsonToSlackBlocks no_fallback
     (JArr [JObj [(''measurement'', JStr ''Hemoglobin''), (''answer_value'', JNum (Finite (27 / 2) ''13.5''))],
            JObj [(''measurement'', JStr ''Ferritin''), (''answer_value'', JNull)]]) = Inl TypeError"
  using forEach_row_null
    [of "[(''measurement'', JStr ''Ferritin''), (''answer_value'', JNull)]"
        "[JObj [(''measurement'', JStr ''Hemoglobin''), (''answer_value'', JNum (Finite (27 / 2) ''13.5''))],
          JObj [(''measurement'', JStr ''Ferritin''), (''answer_value'', JNull)]]"
        "''answer_value''" JNull no_fallback 0 "[]"]
  by (simp add: convertJsonToSlackBlocks_def answer_value_example)

text \<open>
  Claim C3, amended. For a ResultSet of N rows, N at least 1, on which the renderer does
  not throw, the message has exactly N sections and N - 1 dividers, the dividers strictly
  between the sections: the sequence starts with a section, ends with a section, and a
  divider and a section alternate in between. The renderer does not throw when every row
  is an object whose values are scalars (booleans, numbers, strings, dates; not \<open>null\<close>);
  when it throws, what it throws is a TypeError and there is no message.
\<close>

theorem sections_and_dividers:
  assumes "rows \<noteq> []"
  shows "(list_all result_row rows \<longrightarrow> (\<exists>m. convertJsonToSlackBlocks fb (JArr rows) = Inr m)) \<and>
         (\<forall>m. convertJsonToSlackBlocks fb (JArr rows) = Inr m \<longrightarrow>
            length (filter is_section (blocks m)) = length rows \<and>
            length (filter is_divider (blocks m)) = length rows - 1 \<and>
            interleaved (blocks m)) \<and>
         (\<forall>e. convertJsonToSlackBlocks fb (JArr rows) = Inl e \<longrightarrow> e = TypeError)"
proof (intro conjI impI allI)
  assume "list_all result_row rows"
  then obtain bs where "forEach_row fb 0 rows [] = Inr bs"
    using forEach_row_total by blast
  with assms have "convertJsonToSlackBlocks fb (JArr rows) = Inr \<lparr>blocks = bs\<rparr>"
    by (simp add: convertJsonToSlackBlocks_def)
  then show "\<exists>m. convertJsonToSlackBlocks fb (JArr rows) = Inr m" by blast
next
  fix m assume m: "convertJsonToSlackBlocks fb (JArr rows) = Inr m"
  from rendered_shape [OF m]
  show "length (filter is_section (blocks m)) = length rows"
    and "length (filter is_divider (blocks m)) = length rows - 1"
    and "interleaved (blocks m)"
    by simp_all
next
  fix e assume "convertJsonToSlackBlocks fb (JArr rows) = Inl e"
  with assms show "e = TypeError"
    by (auto simp: convertJsonToSlackBlocks_def split: sum.splits dest: forEach_row_error)
qed

lemma two_rows_are_result_rows: "list_all result_row two_rows"
  by (simp add: two_rows_def result_row_def scalar_def)

theorem sections_and_dividers_witness:
  "two_rows \<noteq> [] \<and> list_all result_row two_rows \<and>
   (\<exists>m. convertJsonToSlackBlocks no_fallback (JArr two_rows) = Inr m \<and>
      length (filter is_section (blocks m)) = 2 \<and>
      length (filter is_divider (blocks m)) = 1 \<and>
      interleaved (blocks m)) \<and>
   [JObj [(''dob'', JNull)]] \<noteq> [] \<and>
   convertJsonToSlackBlocks no_fallback (JArr [JObj [(''dob'', JNull)]]) = Inl TypeError"
proof -
  have h1: "two_rows \<noteq> []" by (simp add: two_rows_def)
  have len: "length two_rows = 2" by (simp add: two_rows_def)
  have h2: "[JObj [(''dob'', JNull)]] \<noteq> []" by simp
  have "\<not> is_date_key ''dob''" by (simp add: key_defs char_defs)
  then have thrown: "\<exists>e. convertJsonToSlackBlocks no_fallback (JArr [JObj [(''dob'', JNull)]]) = Inl e"
    by (simp add: convertJsonToSlackBlocks_def Object_entries_def entry_defs)
  from sections_and_dividers [OF h1, of no_fallback] sections_and_dividers [OF h2, of no_fallback] thrown
  show ?thesis
    using h1 two_rows_are_result_rows by (auto simp: len)
qed

section \<open>The fields of a section\<close>

subsection \<open>The test on the name of a field\<close>





subsection \<open>Date fields\<close>

lemma new_Date_ToString: "new_Date fb v = Inr d \<Longrightarrow> \<exists>raw. ToString v = Inr raw"
  by (cases v) (force split: sum.splits if_splits)+










subsection \<open>Labels and plain values\<close>





lemma plain_not_space: "c \<in> set (lower_letters @ decimal_digits) \<Longrightarrow> c \<noteq> CHR '' ''"
  by (auto simp: lower_letters_def decimal_digits_def)

















subsection \<open>A value that does not parse\<close>

text \<open>An Invalid Date is not an exception: the token is built around \<open>NaN\<close>.\<close>

lemma unparseable_date_token:
  assumes "is_date_key key" and "new_Date fb v = Inr None"
  shows "\<exists>raw. ToString v = Inr raw \<and>
           formattedValue fb key v = Inr (''<!date^NaN^{date_short_pretty} at {time}|'' @ raw @ ''>'')"
proof -
  from new_Date_ToString [OF assms(2)] obtain raw where "ToString v = Inr raw" by blast
  with assms show ?thesis
    by (simp add: formattedValue_def date_token_def unixTimestamp_def)
qed

lemma date_started_example: "is_date_key ''date_started''"
  by (simp add: key_defs char_defs)

lemma date_started_label: "formattedKey ''date_started'' = ''Date Started''"
  by (simp add: key_defs char_defs)

lemma not_a_date_example: "Date_parse no_fallback ''not a date'' = None"
  by (simp add: date_defs decimal_digits_def no_fallback_def)

lemma sex_example: "\<not> is_date_key ''sex'' \<and> formattedKey ''sex'' = ''Sex''"
  by (simp add: key_defs char_defs)

text \<open>
  Claim C2. When the value of a date field does not parse as a timestamp, the field is
  to be rendered as the plain string form of the value, and the rest of the message
  renders as usual. The rest does render; the field itself does not fall back: \<open>new
  Date\<close> does not throw on a string it cannot parse, it gives an Invalid Date, so the
  \<open>catch\<close> is not reached and the field is a date token around \<open>NaN\<close>. The row
  \<open>{ date_started: "not a date", sex: "F" }\<close>:
\<close>

theorem unparseable_date_field_renders_nan:
  "convertJsonToSlackBlocks no_fallback
     (JArr [JObj [(''date_started'', JStr ''not a date''), (''sex'', JStr ''F'')]]) =
     Inr \<lparr>blocks =
       [Section [\<lparr>field_type = ''mrkdwn'',
                  field_text = ''*Date Started:*'' @ [CHR 0x0A] @
                    ''<!date^NaN^{date_short_pretty} at {time}|not a date>''\<rparr>,
                 \<lparr>field_type = ''mrkdwn'', field_text = ''*Sex:*'' @ [CHR 0x0A] @ ''F''\<rparr>]]\<rparr>"
  by (simp add: convertJsonToSlackBlocks_def Object_entries_def entry_defs date_started_example
      date_started_label not_a_date_example unixTimestamp_def sex_example clipped_def)

section \<open>Failures of the translator\<close>

text \<open>
  A rejected call, and an envelope on which reading \<open>choices[0].message.content\<close>
  throws, end the pipeline before the data store is called; the error is the one raised.
\<close>

lemma translator_failure_propagates:
  assumes "translator (aiPrompt @ q) = Inl e \<or>
           (\<exists>data. translator (aiPrompt @ q) = Inr data \<and> first_choice_content data = Inl e)"
  shows "queryDatabase translator db (JStr q) =
           (Inl e, \<lparr>translator_calls = [aiPrompt @ q], db_calls = []\<rparr>)"
  using assms by (auto simp: queryDatabase_def)

lemma first_choice_content_throws:
  "first_choice_content JUndefined = Inl TypeError"
  "first_choice_content (JStr s) = Inl TypeError"
  "first_choice_content (JObj []) = Inl TypeError"
  "first_choice_content (JObj [(''choices'', JArr [])]) = Inl TypeError"
  "first_choice_content (JObj [(''choices'', JArr [JObj []])]) = Inl TypeError"
  by (simp_all add: first_choice_content_def get_field_def get_index_def)

text \<open>
  Claim C4. When the translator call is rejected, or no content of a first message can
  be extracted from the envelope, the pipeline fails with the translation failure and
  the data store is never called. That holds when the call is rejected or the read
  throws (above). An envelope whose first message has no \<open>content\<close> is read without
  a throw, as \<open>undefined\<close>, and \<open>pool.query(undefined)\<close> is called: the data store
  is invoked, and the failure the caller sees is the one the data store raises.
\<close>

theorem missing_content_reaches_the_data_store:
  "queryDatabase translator_no_content db_needs_query (JStr ''how many patients are there'') =
     (Inl TypeError,
      \<lparr>translator_calls = [aiPrompt @ ''how many patients are there''], db_calls = [JUndefined]\<rparr>)"
  by (simp add: queryDatabase_def translator_no_content_def db_needs_query_def first_choice_content_def
      get_field_def get_index_def)

section \<open>The synchronous endpoint\<close>

text \<open>
  Claim C9. For a request to \<open>POST /ask\<close>: when the pipeline succeeds the response is
  200 with the rows the pipeline returned, unchanged; when the pipeline fails, with
  whatever error of the translator or of the data store, the response is 500 with the
  fixed text "Server Error", which carries nothing of the error.
\<close>

theorem ask_response:
  "get_field req_body ''question'' = Inr question \<Longrightarrow>
   (queryDatabase translator db question = (Inr rows, t) \<longrightarrow>
      ask translator db req_body = (Inr \<lparr>status = 200, body = JsonBody rows\<rparr>, t)) \<and>
   (queryDatabase translator db question = (Inl e, t) \<longrightarrow>
      ask translator db req_body = (Inr \<lparr>status = 500, body = TextBody ''Server Error''\<rparr>, t))"
  by (simp add: ask_def)

lemma queryDatabase_down:
  "queryDatabase translator_down db (JStr q) =
     (Inl (HttpError ''Request failed with status code 429''),
      \<lparr>translator_calls = [aiPrompt @ q], db_calls = []\<rparr>)"
  by (simp add: queryDatabase_def translator_down_def)

lemma queryDatabase_rejected:
  "queryDatabase (translator_answers sql) db_rejects (JStr q) =
     (Inl (DbError ''syntax error at end of input''),
      \<lparr>translator_calls = [aiPrompt @ q], db_calls = [JStr sql]\<rparr>)"
  by (simp add: queryDatabase_def translator_answers_def db_rejects_def first_choice_content_def
      get_field_def get_index_def)

theorem ask_response_witness:
  "get_field (JObj [(''question'', JStr ''how many patients are there'')]) ''question'' =
     Inr (JStr ''how many patients are there'') \<and>
   ask (translator_answers ''SELECT 1'') (db_returns two_rows)
       (JObj [(''question'', JStr ''how many patients are there'')]) =
     (Inr \<lparr>status = 200, body = JsonBody two_rows\<rparr>,
      \<lparr>translator_calls = [aiPrompt @ ''how many patients are there''], db_calls = [JStr ''SELECT 1'']\<rparr>) \<and>
   ask translator_down (db_returns two_rows)
       (JObj [(''question'', JStr ''how many patients are there'')]) =
     (Inr \<lparr>status = 500, body = TextBody ''Server Error''\<rparr>,
      \<lparr>translator_calls = [aiPrompt @ ''how many patients are there''], db_calls = []\<rparr>) \<and>
   ask (translator_answers ''SELEC 1'') db_rejects
       (JObj [(''question'', JStr ''how many patients are there'')]) =
     (Inr \<lparr>status = 500, body = TextBody ''Server Error''\<rparr>,
      \<lparr>translator_calls = [aiPrompt @ ''how many patients are there''], db_calls = [JStr ''SELEC 1'']\<rparr>)"
proof -
  let ?b = "JObj [(''question'', JStr ''how many patients are there'')]"
  let ?q = "JStr ''how many patients are there''"
  have h: "get_field ?b ''question'' = Inr ?q" by (simp add: get_field_def)
  show ?thesis
    using h
      ask_response [OF h, of "translator_answers ''SELECT 1''" "db_returns two_rows"]
      ask_response [OF h, of translator_down "db_returns two_rows"]
      ask_response [OF h, of "translator_answers ''SELEC 1''" db_rejects]
    by (simp add: queryDatabase_answers queryDatabase_down queryDatabase_rejected)
qed

end
